theory Spec2Isabelle
  imports Complex_Main
begin

section \<open>The tensor operator-overload layer of \<^verbatim>\<open>bindings/python/cntk/tensor.py\<close>\<close>

text \<open>
  The file \<^verbatim>\<open>tensor.py\<close> holds three mixins: \<^verbatim>\<open>TensorOpsMixin\<close> (graph building),
  \<^verbatim>\<open>ArrayMixin\<close> (\<^verbatim>\<open>asarray\<close>) and \<^verbatim>\<open>NDArrayViewOpsMixin\<close> (direct mode), and the
  functions that install them on a class. Every numeric primitive belongs to the native
  runtime; the Python code decides which primitive is called, with which arguments, and
  does the index and shape arithmetic. The embedding therefore keeps a log of the
  primitive calls issued (the effect of the code on the runtime) beside the values
  the code computes itself.

  Python integers are \<^typ>\<open>int\<close>, tuples and lists are HOL lists, \<^verbatim>\<open>None\<close>-able values
  are options, and every \<^verbatim>\<open>raise\<close> (explicit, or of an out-of-range subscript) is an
  \<open>Inl\<close> result. An exception does not undo the calls issued before it, so a stateful
  function returns its result together with the state it leaves behind.
\<close>

subsection \<open>Exceptions and Python values\<close>

datatype error =
    ValueError string
  | IndexError string
  | TypeError string
  | KeyError string
  | UnboundLocalError string
  | NativeError string  \<comment> \<open>raised below this layer, by the named runtime primitive\<close>

text \<open>One element of a tuple or list used as a multi-select: an int, or a value of another type.\<close>

datatype item = IntItem int | OtherItem string

text \<open>
  One per-axis selector of an index expression. \<open>Slice start stop step\<close> is Python's
  \<^verbatim>\<open>slice(start, stop, step)\<close>; \<open>Multi\<close> is a tuple or list standing at one position of
  the key; \<open>Other t\<close> is any other object, of type \<open>t\<close>. The key of \<^verbatim>\<open>__getitem__\<close> is the
  tuple of selectors; a key that is not a tuple is the one-element tuple of it, as the
  first statement of both \<^verbatim>\<open>__getitem__\<close> functions makes it.
\<close>

datatype selector =
    Ellipsis
  | Index int
  | Slice "int option" "int option" "int option"
  | Multi "item list"
  | Other string

text \<open>What a cell of \<^verbatim>\<open>start_offsets\<close> can hold: the code stores any non-slice selector there.\<close>

datatype pyvalue = PyInt int | PyObj selector

text \<open>\<^verbatim>\<open>xs[i]\<close> on a tuple or list, for a non-negative position \<open>i\<close>: IndexError out of range.\<close>

definition py_index :: "'a list \<Rightarrow> nat \<Rightarrow> error + 'a" where
  "py_index xs i =
     (if i < length xs then Inr (xs ! i) else Inl (IndexError ''index out of range''))"

text \<open>\<^verbatim>\<open>xs[i] = v\<close> on a list, for a non-negative position \<open>i\<close>.\<close>

definition set_item :: "'a list \<Rightarrow> nat \<Rightarrow> 'a \<Rightarrow> error + 'a list" where
  "set_item xs i v =
     (if i < length xs then Inr (xs[i := v])
      else Inl (IndexError ''list assignment index out of range''))"

text \<open>\<^verbatim>\<open>x or 0\<close> for \<open>x\<close> an int or \<^verbatim>\<open>None\<close>.\<close>

definition or_zero :: "int option \<Rightarrow> int" where
  "or_zero x = (case x of None \<Rightarrow> 0 | Some v \<Rightarrow> v)"

subsection \<open>Handles, storage and the native runtime\<close>

datatype data_type = Float32 | Float64

text \<open>
  The storage a handle refers to: a buffer of its own, a sub-region of another handle's
  storage (a slice view), or another handle's storage under a new shape. Handles with the
  same \<open>root_buffer\<close> alias one buffer.
\<close>

datatype region =
    Buffer nat
  | SubRegion region "int list" "int list"
  | Reshaped region "int list"

fun root_buffer :: "region \<Rightarrow> nat" where
  "root_buffer (Buffer b) = b"
| "root_buffer (SubRegion r offs exts) = root_buffer r"
| "root_buffer (Reshaped r shp) = root_buffer r"

text \<open>
  An NDArrayView object: \<open>oid\<close> is the identity of the Python object, \<open>cls\<close> its
  \<^verbatim>\<open>__class__\<close>, the other fields are the attributes the code reads.
\<close>

record ndarrayview =
  oid :: nat
  cls :: string
  shape :: "int list"
  dtype :: data_type
  device :: nat
  read_only :: bool
  storage :: region

text \<open>
  The \<^verbatim>\<open>shape\<close> argument of the constructor: \<^verbatim>\<open>__matmul__\<close> passes the int
  \<^verbatim>\<open>(other.shape[0])\<close>, \<^verbatim>\<open>splice\<close> a tuple.
\<close>

datatype shape_arg = IntShape int | TupleShape "int list"

text \<open>The primitive calls of the runtime that this layer issues, with their arguments in call order.\<close>

datatype call =
    Construct shape_arg data_type nat
  | NumericOperationInPlace ndarrayview real "ndarrayview list" real nat nat
      \<comment> \<open>target, beta, inputs, alpha, op, reduction op\<close>
  | MatrixProduct bool ndarrayview bool ndarrayview bool real nat
  | SliceView ndarrayview "pyvalue list" "int list" bool
  | AsShape ndarrayview "int list"

text \<open>The state: the calls issued so far, and the next unused identity (objects and buffers).\<close>

record world =
  calls :: "call list"
  next_id :: nat

text \<open>
  The numeric primitives are not part of the repository. Whether the runtime carries out a
  numeric call (its own shape, device and element-type checks) and which attributes a matrix
  product's result has are parameters of the model.
\<close>

record runtime =
  accepts :: "call \<Rightarrow> bool"
  product_attrs :: "call \<Rightarrow> int list \<times> data_type \<times> nat"

definition issue :: "call \<Rightarrow> world \<Rightarrow> world" where
  "issue c w = w\<lparr>calls := calls w @ [c]\<rparr>"

text \<open>
  Modelled from the spec: the constructor \<^verbatim>\<open>NDArrayView(shape, data_type, device)\<close> of
  \<^verbatim>\<open>cntk.core\<close> is not in the sources. It materializes a new handle with storage of its own;
  an int given as shape stands for the one-axis shape of that extent.
\<close>

fun sanitize_shape :: "shape_arg \<Rightarrow> int list" where
  "sanitize_shape (IntShape n) = [n]"
| "sanitize_shape (TupleShape s) = s"

definition NDArrayView_new ::
  "shape_arg \<Rightarrow> data_type \<Rightarrow> nat \<Rightarrow> world \<Rightarrow> ndarrayview \<times> world" where
  "NDArrayView_new sh dt dev w =
     (\<lparr>oid = next_id w, cls = ''NDArrayView'', shape = sanitize_shape sh, dtype = dt,
       device = dev, read_only = False, storage = Buffer (next_id w)\<rparr>,
      (issue (Construct sh dt dev) w)\<lparr>next_id := Suc (next_id w)\<rparr>)"

text \<open>
  \<^verbatim>\<open>self.numeric_operation_in_place(beta, inputs, alpha, op, reduction_op)\<close>: the call is
  issued on the storage of \<open>self\<close>; the runtime may refuse it.
\<close>

definition numeric_operation_in_place ::
  "runtime \<Rightarrow> ndarrayview \<Rightarrow> real \<Rightarrow> ndarrayview list \<Rightarrow> real \<Rightarrow> nat \<Rightarrow> nat \<Rightarrow> world
     \<Rightarrow> (error + unit) \<times> world" where
  "numeric_operation_in_place rt self beta inputs alpha op red w =
     (let c = NumericOperationInPlace self beta inputs alpha op red in
      if accepts rt c then (Inr (), issue c w)
      else (Inl (NativeError ''numeric_operation_in_place''), issue c w))"

definition matrix_product ::
  "runtime \<Rightarrow> bool \<Rightarrow> ndarrayview \<Rightarrow> bool \<Rightarrow> ndarrayview \<Rightarrow> bool \<Rightarrow> real \<Rightarrow> nat \<Rightarrow> world
     \<Rightarrow> (error + ndarrayview) \<times> world" where
  "matrix_product rt t0 a t1 b t2 alpha r w =
     (let c = MatrixProduct t0 a t1 b t2 alpha r in
      if accepts rt c then
        (case product_attrs rt c of (shp, dt, dev) \<Rightarrow>
           (Inr \<lparr>oid = next_id w, cls = ''cntk_py.NDArrayView'', shape = shp, dtype = dt,
                 device = dev, read_only = False, storage = Buffer (next_id w)\<rparr>,
            (issue c w)\<lparr>next_id := Suc (next_id w)\<rparr>))
      else (Inl (NativeError ''matrix_product''), issue c w))"

text \<open>
  Modelled from the spec: \<^verbatim>\<open>slice_view(start_offsets, extents, read_only)\<close> is a primitive
  of the runtime. The spec's View invariant: for every axis \<open>i\<close>,
  \<open>0 \<le> start_offsets[i]\<close> and \<open>start_offsets[i] + extents[i] \<le> parent.shape[i]\<close>, extents
  being a shape (non-negative); the view has the extents as its shape and shares the
  parent's storage. Offsets that are not ints are refused.
\<close>

fun in_bounds :: "int list \<Rightarrow> int list \<Rightarrow> int list \<Rightarrow> bool" where
  "in_bounds [] [] [] = True"
| "in_bounds (d # ds) (s # ss) (e # es) =
     (0 \<le> s \<and> 0 \<le> e \<and> s + e \<le> d \<and> in_bounds ds ss es)"
| "in_bounds ds ss es = False"

fun ints_of :: "pyvalue list \<Rightarrow> int list option" where
  "ints_of [] = Some []"
| "ints_of (PyInt n # vs) = (case ints_of vs of None \<Rightarrow> None | Some ns \<Rightarrow> Some (n # ns))"
| "ints_of (PyObj s # vs) = None"

definition slice_view ::
  "ndarrayview \<Rightarrow> pyvalue list \<Rightarrow> int list \<Rightarrow> bool \<Rightarrow> world \<Rightarrow> (error + ndarrayview) \<times> world" where
  "slice_view self start_offsets extents ro w =
     (let w1 = issue (SliceView self start_offsets extents ro) w in
      case ints_of start_offsets of
        None \<Rightarrow> (Inl (NativeError ''slice_view''), w1)
      | Some offs \<Rightarrow>
          if in_bounds (shape self) offs extents then
            (Inr \<lparr>oid = next_id w, cls = ''cntk_py.NDArrayView'', shape = extents,
                  dtype = dtype self, device = device self, read_only = ro,
                  storage = SubRegion (storage self) offs extents\<rparr>,
             w1\<lparr>next_id := Suc (next_id w)\<rparr>)
          else (Inl (NativeError ''slice_view''), w1))"

text \<open>
  Modelled from the spec: \<^verbatim>\<open>as_shape(new_shape)\<close> is a primitive of the runtime. The
  spec: reshape is only legal when the product of the new shape's dimensions equals the
  product of the old shape's dimensions. The result is a new handle on the same storage.
\<close>

definition as_shape ::
  "ndarrayview \<Rightarrow> int list \<Rightarrow> world \<Rightarrow> (error + ndarrayview) \<times> world" where
  "as_shape self new_shape w =
     (let w1 = issue (AsShape self new_shape) w in
      if prod_list new_shape = prod_list (shape self) then
        (Inr \<lparr>oid = next_id w, cls = ''cntk_py.NDArrayView'', shape = new_shape,
              dtype = dtype self, device = device self, read_only = read_only self,
              storage = Reshaped (storage self) new_shape\<rparr>,
         w1\<lparr>next_id := Suc (next_id w)\<rparr>)
      else (Inl (NativeError ''as_shape''), w1))"

subsection \<open>\<^verbatim>\<open>NDArrayViewOpsMixin\<close>: shapes and slicing\<close>

text \<open>\<^verbatim>\<open>reshape\<close>: \<^verbatim>\<open>res = self.as_shape(new_shape); res.__class__ = self.__class__\<close>.\<close>

definition reshape ::
  "ndarrayview \<Rightarrow> int list \<Rightarrow> world \<Rightarrow> (error + ndarrayview) \<times> world" where
  "reshape self new_shape w =
     (case as_shape self new_shape w of
        (Inl e, w1) \<Rightarrow> (Inl e, w1)
      | (Inr res, w1) \<Rightarrow> (Inr (res\<lparr>cls := cls self\<rparr>), w1))"

text \<open>
  One round of the loop \<^verbatim>\<open>for i, s in enumerate(key)\<close> of \<^verbatim>\<open>__getitem__\<close>, on the three
  lists \<^verbatim>\<open>start_offsets\<close>, \<^verbatim>\<open>extents\<close>, \<^verbatim>\<open>dims_to_keep\<close>. The statements of the slice
  branch are kept in the order of the source, since each may raise:
  \<^verbatim>\<open>shape[i]\<close> (IndexError), and \<^verbatim>\<open>i[2]\<close>, which subscripts the loop counter, an int,
  whenever \<^verbatim>\<open>s.step is not None\<close> (TypeError). The variable \<^verbatim>\<open>i_off\<close> set in the Ellipsis
  branch is never read, so it is not part of the state.
\<close>

type_synonym getitem_state = "pyvalue list \<times> int list \<times> bool list"

definition store3 ::
  "nat \<Rightarrow> pyvalue \<Rightarrow> int \<Rightarrow> bool \<Rightarrow> getitem_state \<Rightarrow> error + getitem_state" where
  "store3 i off ext keep st =
     (case st of (start_offsets, extents, dims_to_keep) \<Rightarrow>
        (case set_item start_offsets i off of
           Inl e \<Rightarrow> Inl e
         | Inr so \<Rightarrow>
             (case set_item extents i ext of
                Inl e \<Rightarrow> Inl e
              | Inr ex \<Rightarrow>
                  (case set_item dims_to_keep i keep of
                     Inl e \<Rightarrow> Inl e
                   | Inr dk \<Rightarrow> Inr (so, ex, dk)))))"

text \<open>\<^verbatim>\<open>if v < 0: v += shape[i]\<close>.\<close>

definition add_if_negative :: "int list \<Rightarrow> nat \<Rightarrow> int \<Rightarrow> error + int" where
  "add_if_negative shp i v =
     (if v < 0 then (case py_index shp i of Inl e \<Rightarrow> Inl e | Inr d \<Rightarrow> Inr (v + d))
      else Inr v)"

definition getitem_step ::
  "int list \<Rightarrow> nat \<Rightarrow> selector \<Rightarrow> getitem_state \<Rightarrow> error + getitem_state" where
  "getitem_step shp i s st =
     (case s of
        Ellipsis \<Rightarrow> Inr st
      | Slice start stop step \<Rightarrow>
          (case (case stop of Some e \<Rightarrow> Inr e | None \<Rightarrow> py_index shp i) of
             Inl e \<Rightarrow> Inl e
           | Inr end0 \<Rightarrow>
               if step \<noteq> None then Inl (TypeError ''int object is not subscriptable'')
               else
                 (case add_if_negative shp i (or_zero start) of
                    Inl e \<Rightarrow> Inl e
                  | Inr begin \<Rightarrow>
                      (case add_if_negative shp i end0 of
                         Inl e \<Rightarrow> Inl e
                       | Inr end1 \<Rightarrow>
                           store3 i (PyInt begin) (end1 - begin) (stop \<noteq> None) st)))
      | Index n \<Rightarrow> store3 i (PyInt n) 1 False st
      | Multi xs \<Rightarrow> store3 i (PyObj s) 1 False st
      | Other t \<Rightarrow> store3 i (PyObj s) 1 False st)"

fun getitem_loop ::
  "int list \<Rightarrow> nat \<Rightarrow> selector list \<Rightarrow> getitem_state \<Rightarrow> error + getitem_state" where
  "getitem_loop shp i [] st = Inr st"
| "getitem_loop shp i (s # key) st =
     (case getitem_step shp i s st of
        Inl e \<Rightarrow> Inl e
      | Inr st' \<Rightarrow> getitem_loop shp (Suc i) key st')"

text \<open>
  \<^verbatim>\<open>sum(((dim,) * dims_to_keep[i] for i, dim in enumerate(shape)), ())\<close>: the extents of
  the axes to keep, in axis order.
\<close>

fun kept_dims :: "int list \<Rightarrow> bool list \<Rightarrow> error + int list" where
  "kept_dims [] ks = Inr []"
| "kept_dims (d # ds) [] = Inl (IndexError ''index out of range'')"
| "kept_dims (d # ds) (k # ks) =
     (case kept_dims ds ks of
        Inl e \<Rightarrow> Inl e
      | Inr r \<Rightarrow> Inr ((if k then [d] else []) @ r))"

text \<open>\<^verbatim>\<open>__getitem__(self, key, keep_singles=False)\<close>.\<close>

definition getitem ::
  "ndarrayview \<Rightarrow> selector list \<Rightarrow> bool \<Rightarrow> world \<Rightarrow> (error + ndarrayview) \<times> world" where
  "getitem self key keep_singles w =
     (let shp = shape self in
      case getitem_loop shp 0 key
             (replicate (length shp) (PyInt 0), shp, replicate (length shp) True) of
        Inl e \<Rightarrow> (Inl e, w)
      | Inr (start_offsets, extents, dims_to_keep) \<Rightarrow>
          (case slice_view self start_offsets extents (read_only self) w of
             (Inl e, w1) \<Rightarrow> (Inl e, w1)
           | (Inr res0, w1) \<Rightarrow>
               (let res = res0\<lparr>cls := cls self\<rparr> in
                if \<not> keep_singles \<and> \<not> list_all id dims_to_keep then
                  (case kept_dims (shape res) dims_to_keep of
                     Inl e \<Rightarrow> (Inl e, w1)
                   | Inr new_shape \<Rightarrow> reshape res new_shape w1)
                else (Inr res, w1))))"

text \<open>
  \<^verbatim>\<open>__setitem__(self, key, value)\<close>: the view for \<open>key\<close> with all axes kept, then an
  in-place copy of \<open>value\<close> into it.
\<close>

definition setitem ::
  "runtime \<Rightarrow> ndarrayview \<Rightarrow> selector list \<Rightarrow> ndarrayview \<Rightarrow> world \<Rightarrow> (error + unit) \<times> world" where
  "setitem rt self key val w =
     (case getitem self key True w of
        (Inl e, w1) \<Rightarrow> (Inl e, w1)
      | (Inr slice, w1) \<Rightarrow> numeric_operation_in_place rt slice 0 [val] 1 2 24 w1)"


subsection \<open>\<^verbatim>\<open>NDArrayViewOpsMixin\<close>: in-place operators and the matrix product\<close>

text \<open>
  \<^verbatim>\<open>__iadd__\<close> and \<^verbatim>\<open>__isub__\<close>: one \<^verbatim>\<open>numeric_operation_in_place\<close> on \<open>self\<close> with
  \<open>beta = 1.0\<close>, the other operand scaled by \<open>1.0\<close> or \<open>-1.0\<close>, \<open>op = 2\<close> (copy) and
  reduction \<open>24\<close> (sum); \<^verbatim>\<open>return self\<close>.
\<close>

definition iadd ::
  "runtime \<Rightarrow> ndarrayview \<Rightarrow> ndarrayview \<Rightarrow> world \<Rightarrow> (error + ndarrayview) \<times> world" where
  "iadd rt self other w =
     (case numeric_operation_in_place rt self 1 [other] 1 2 24 w of
        (Inl e, w1) \<Rightarrow> (Inl e, w1)
      | (Inr u, w1) \<Rightarrow> (Inr self, w1))"

definition isub ::
  "runtime \<Rightarrow> ndarrayview \<Rightarrow> ndarrayview \<Rightarrow> world \<Rightarrow> (error + ndarrayview) \<times> world" where
  "isub rt self other w =
     (case numeric_operation_in_place rt self 1 [other] (- 1) 2 24 w of
        (Inl e, w1) \<Rightarrow> (Inl e, w1)
      | (Inr u, w1) \<Rightarrow> (Inr self, w1))"

text \<open>
  What an observer sees through a handle \<open>h\<close>: the in-place operations the runtime has
  carried out on the buffer that \<open>h\<close> refers to, oldest first.
\<close>

fun writes_buffer :: "nat \<Rightarrow> call \<Rightarrow> bool" where
  "writes_buffer b (NumericOperationInPlace t beta inputs alpha op red) = (root_buffer (storage t) = b)"
| "writes_buffer b c = False"

definition mutations :: "runtime \<Rightarrow> world \<Rightarrow> ndarrayview \<Rightarrow> call list" where
  "mutations rt w h =
     filter (\<lambda>c. accepts rt c \<and> writes_buffer (root_buffer (storage h)) c) (calls w)"

text \<open>
  \<^verbatim>\<open>_mat_prod(*args)\<close>: \<^verbatim>\<open>res = NDArrayView.matrix_product(*args)\<close>, then
  \<^verbatim>\<open>res.__class__ = args[1].__class__\<close>, the class of the first operand.
\<close>

definition mat_prod ::
  "runtime \<Rightarrow> bool \<Rightarrow> ndarrayview \<Rightarrow> bool \<Rightarrow> ndarrayview \<Rightarrow> bool \<Rightarrow> real \<Rightarrow> nat \<Rightarrow> world
     \<Rightarrow> (error + ndarrayview) \<times> world" where
  "mat_prod rt t0 a t1 b t2 alpha r w =
     (case matrix_product rt t0 a t1 b t2 alpha r w of
        (Inl e, w1) \<Rightarrow> (Inl e, w1)
      | (Inr res, w1) \<Rightarrow> (Inr (res\<lparr>cls := cls a\<rparr>), w1))"

text \<open>
  \<^verbatim>\<open>__matmul__(self, other)\<close>. For a receiver of rank 0 a handle \<^verbatim>\<open>self1\<close> is constructed
  from \<^verbatim>\<open>other.shape[0]\<close> (IndexError when \<open>other\<close> has rank 0 too), \<open>self\<close> is copied into
  it in place (\<open>beta = 0.0\<close>), and \<^verbatim>\<open>self = self1\<close>. Then
  \<^verbatim>\<open>_mat_prod(False, other, False, self, False, 1.0, 1)\<close>.
\<close>

definition matmul ::
  "runtime \<Rightarrow> ndarrayview \<Rightarrow> ndarrayview \<Rightarrow> world \<Rightarrow> (error + ndarrayview) \<times> world" where
  "matmul rt self other w =
     (if length (shape self) = 0 then
        (case py_index (shape other) 0 of
           Inl e \<Rightarrow> (Inl e, w)
         | Inr n \<Rightarrow>
             (case NDArrayView_new (IntShape n) (dtype other) (device other) w of
                (self1, w1) \<Rightarrow>
                  (case numeric_operation_in_place rt self1 0 [self] 1 2 24 w1 of
                     (Inl e, w2) \<Rightarrow> (Inl e, w2)
                   | (Inr u, w2) \<Rightarrow> mat_prod rt False other False self1 False 1 1 w2)))
      else mat_prod rt False other False self False 1 1 w)"

text \<open>\<^verbatim>\<open>dot = __matmul__\<close>: the same function under a second name.\<close>

definition dot ::
  "runtime \<Rightarrow> ndarrayview \<Rightarrow> ndarrayview \<Rightarrow> world \<Rightarrow> (error + ndarrayview) \<times> world" where
  "dot = matmul"

text \<open>
  \<^verbatim>\<open>dot_transpose(self, other)\<close>, with the comment ``other gets transposed'':
  \<^verbatim>\<open>_mat_prod(False, other, True, self, False, 1.0, 1)\<close>. There is no rank-0 branch.
\<close>

definition dot_transpose ::
  "runtime \<Rightarrow> ndarrayview \<Rightarrow> ndarrayview \<Rightarrow> world \<Rightarrow> (error + ndarrayview) \<times> world" where
  "dot_transpose rt self other w = mat_prod rt False other True self False 1 1 w"

subsection \<open>\<^verbatim>\<open>NDArrayViewOpsMixin.splice\<close>\<close>

text \<open>
  The loop \<^verbatim>\<open>for i in range(num_items)\<close>:
  \<^verbatim>\<open>key = (slice(0,None),) * axis + (i,); res[key] = args[i].reshape(shape)\<close>. The right-hand
  side is evaluated first. The two \<^verbatim>\<open>print\<close> calls of \<^verbatim>\<open>splice\<close> write to standard output
  only and are left out.
\<close>

fun splice_loop ::
  "runtime \<Rightarrow> ndarrayview \<Rightarrow> int list \<Rightarrow> nat \<Rightarrow> nat \<Rightarrow> ndarrayview list \<Rightarrow> world
     \<Rightarrow> (error + unit) \<times> world" where
  "splice_loop rt res shp axis i [] w = (Inr (), w)"
| "splice_loop rt res shp axis i (a # rest) w =
     (case reshape a shp w of
        (Inl e, w1) \<Rightarrow> (Inl e, w1)
      | (Inr v, w1) \<Rightarrow>
          (case setitem rt res (replicate axis (Slice (Some 0) None None) @ [Index (int i)]) v w1 of
             (Inl e, w2) \<Rightarrow> (Inl e, w2)
           | (Inr u, w2) \<Rightarrow> splice_loop rt res shp axis (Suc i) rest w2))"

definition splice_views ::
  "runtime \<Rightarrow> ndarrayview list \<Rightarrow> int \<Rightarrow> world \<Rightarrow> (error + ndarrayview) \<times> world" where
  "splice_views rt args axis w =
     (case py_index args 0 of
        Inl e \<Rightarrow> (Inl e, w)
      | Inr arg0 \<Rightarrow>
          (let shp = (if axis < 0 then replicate (nat (- axis)) 1 @ shape arg0 else shape arg0);
               ax = (if axis < 0 then 0 else nat axis);
               num_items = length args
           in case py_index shp ax of
                Inl e \<Rightarrow> (Inl e, w)
              | Inr d \<Rightarrow>
                  (let out_shape = take ax shp @ [d * int num_items] @ drop (Suc ax) shp
                   in case NDArrayView_new (TupleShape out_shape) (dtype arg0) (device arg0) w of
                        (res, w1) \<Rightarrow>
                          (case splice_loop rt res shp ax 0 args w1 of
                             (Inl e, w2) \<Rightarrow> (Inl e, w2)
                           | (Inr u, w2) \<Rightarrow> (Inr res, w2)))))"

subsection \<open>\<^verbatim>\<open>_add_ndarrayview_ops\<close>\<close>

text \<open>
  A class as far as \<^verbatim>\<open>getattr\<close> and \<^verbatim>\<open>setattr\<close> see it. \<open>attrs\<close> is the table from
  attribute names to values: a function of the mixin, something else with its truth value,
  or an attribute whose lookup or truth test raises an exception other than AttributeError.
  \<open>set_error name\<close> is the exception with which the class refuses \<^verbatim>\<open>setattr\<close> of that
  name, if it does: a built-in or extension type such as \<^verbatim>\<open>object\<close> refuses every name
  with TypeError, an ordinary class refuses none.
\<close>

datatype attr = MixinFunction string | Attr bool | Raising error

record pyclass =
  attrs :: "string \<rightharpoonup> attr"
  set_error :: "string \<Rightarrow> error option"

text \<open>
  \<^verbatim>\<open>getattr(klass, name, None)\<close> under \<^verbatim>\<open>if\<close>: the exception it raises, if any, and its
  truth value otherwise; a missing attribute gives \<^verbatim>\<open>None\<close>, a function object is true.
\<close>

definition getattr_error :: "pyclass \<Rightarrow> string \<Rightarrow> error option" where
  "getattr_error k name = (case attrs k name of Some (Raising e) \<Rightarrow> Some e | _ \<Rightarrow> None)"

definition has_attr :: "pyclass \<Rightarrow> string \<Rightarrow> bool" where
  "has_attr k name =
     (case attrs k name of Some (MixinFunction f) \<Rightarrow> True | Some (Attr t) \<Rightarrow> t | _ \<Rightarrow> False)"

text \<open>\<^verbatim>\<open>setattr(klass, name, f)\<close>: refused with the class's exception, or the name is bound.\<close>

definition setattr :: "pyclass \<Rightarrow> string \<Rightarrow> attr \<Rightarrow> error + pyclass" where
  "setattr k name f =
     (case set_error k name of
        Some e \<Rightarrow> Inl e
      | None \<Rightarrow> Inr (k\<lparr>attrs := (attrs k)(name \<mapsto> f)\<rparr>))"

text \<open>
  \<^verbatim>\<open>NDArrayViewOpsMixin.__dict__\<close>: the names bound in the class body. \<^verbatim>\<open>__radd__\<close>,
  \<^verbatim>\<open>__rmul__\<close> and \<^verbatim>\<open>dot\<close> are second names of \<^verbatim>\<open>__add__\<close>, \<^verbatim>\<open>__mul__\<close> and
  \<^verbatim>\<open>__matmul__\<close>. The definition of \<^verbatim>\<open>drop_axis\<close> is commented out, so the name is not
  bound.
\<close>

definition mixin_dict :: "(string \<times> attr) list" where
  "mixin_dict =
     [(''_num_op'', MixinFunction ''_num_op''), (''_mat_prod'', MixinFunction ''_mat_prod''),
      (''__add__'', MixinFunction ''__add__''), (''__sub__'', MixinFunction ''__sub__''),
      (''__mul__'', MixinFunction ''__mul__''),
      (''__radd__'', MixinFunction ''__add__''), (''__rmul__'', MixinFunction ''__mul__''),
      (''__iadd__'', MixinFunction ''__iadd__''), (''__isub__'', MixinFunction ''__isub__''),
      (''__matmul__'', MixinFunction ''__matmul__''), (''dot'', MixinFunction ''__matmul__''),
      (''dot_transpose'', MixinFunction ''dot_transpose''),
      (''sigmoid'', MixinFunction ''sigmoid''), (''tanh'', MixinFunction ''tanh''),
      (''relu'', MixinFunction ''relu''), (''reduce_log_sum'', MixinFunction ''reduce_log_sum''),
      (''reshape'', MixinFunction ''reshape''), (''__setitem__'', MixinFunction ''__setitem__''),
      (''__getitem__'', MixinFunction ''__getitem__''), (''splice'', MixinFunction ''splice'')]"

definition overload_names :: "string list" where
  "overload_names =
     [''__add__'', ''__sub__'', ''__mul__'',
      ''__radd__'', ''__rmul__'',
      ''__iadd__'', ''__isub__'',
      ''__matmul__'',
      ''dot'', ''dot_transpose'',
      ''sigmoid'', ''tanh'', ''relu'',
      ''reduce_log_sum'',
      ''reshape'', ''drop_axis'', ''__getitem__'', ''__setitem__'', ''splice'']"

text \<open>
  The loop of \<^verbatim>\<open>_add_ndarrayview_ops\<close>: ValueError when the class has the name already,
  otherwise \<^verbatim>\<open>setattr(klass, name, NDArrayViewOpsMixin.__dict__[name])\<close>. The subscript is
  evaluated first and raises KeyError for an unbound name; then \<^verbatim>\<open>setattr\<close> may be refused.
  The class keeps what was set before an exception. ValueError and KeyError carry the name at
  which the loop stopped.
\<close>

fun add_ops_loop :: "string list \<Rightarrow> pyclass \<Rightarrow> (error + unit) \<times> pyclass" where
  "add_ops_loop [] k = (Inr (), k)"
| "add_ops_loop (name # names) k =
     (case getattr_error k name of
        Some e \<Rightarrow> (Inl e, k)
      | None \<Rightarrow>
          if has_attr k name then (Inl (ValueError name), k)
          else (case map_of mixin_dict name of
                  None \<Rightarrow> (Inl (KeyError name), k)
                | Some f \<Rightarrow>
                    (case setattr k name f of
                       Inl e \<Rightarrow> (Inl e, k)
                     | Inr k' \<Rightarrow> add_ops_loop names k')))"

definition add_ndarrayview_ops :: "pyclass \<Rightarrow> (error + unit) \<times> pyclass" where
  "add_ndarrayview_ops klass = add_ops_loop overload_names klass"

subsection \<open>\<^verbatim>\<open>TensorOpsMixin.__getitem__\<close>: graph building\<close>

text \<open>
  The graph under construction: \<^verbatim>\<open>ops.slice(r, axis, begin_index, end_index)\<close> and
  \<^verbatim>\<open>ops.splice(*xs, axis)\<close> of \<^verbatim>\<open>cntk.ops\<close> each make a node.
\<close>

datatype node =
    Variable string
  | Ops_slice node int int int
  | Ops_splice "node list" int

text \<open>The inner loop \<^verbatim>\<open>for idx in s\<close> of the tuple/list branch, filling \<^verbatim>\<open>slice_accum\<close>.\<close>

fun slice_accum :: "node \<Rightarrow> int \<Rightarrow> item list \<Rightarrow> error + node list" where
  "slice_accum r axis [] = Inr []"
| "slice_accum r axis (IntItem idx # s) =
     (case slice_accum r axis s of
        Inl e \<Rightarrow> Inl e
      | Inr acc \<Rightarrow> Inr (Ops_slice r axis idx (idx + 1) # acc))"
| "slice_accum r axis (OtherItem t # s) =
     Inl (IndexError ''indices have to be of type int'')"

text \<open>The branch \<^verbatim>\<open>isinstance(s, slice)\<close>, which an int reaches as \<^verbatim>\<open>slice(s, s+1)\<close>.\<close>

definition slice_branch ::
  "int \<Rightarrow> int option \<Rightarrow> int option \<Rightarrow> int option \<Rightarrow> node \<times> int \<Rightarrow> error + node \<times> int" where
  "slice_branch axis start stop step st =
     (case st of (r, axis0) \<Rightarrow>
        if step \<noteq> None \<and> step \<noteq> Some 1 then
          Inl (ValueError ''slicing with a step other than 1 is currently not supported'')
        else
          (let begin = or_zero start; end1 = or_zero stop in
           if begin \<noteq> 0 \<or> end1 \<noteq> 0
           then Inr (Ops_slice r (axis + axis0) begin end1, axis0)
           else Inr (r, axis0)))"

text \<open>
  One round of \<^verbatim>\<open>for axis, s in enumerate(arg)\<close>, on \<open>r\<close> and \<open>axis0\<close>; \<open>n\<close> is
  \<^verbatim>\<open>len(arg)\<close>.
\<close>

definition tensor_getitem_step ::
  "nat \<Rightarrow> nat \<Rightarrow> selector \<Rightarrow> node \<times> int \<Rightarrow> error + node \<times> int" where
  "tensor_getitem_step n axis s st =
     (case s of
        Ellipsis \<Rightarrow> Inr (fst st, - int n)
      | Index k \<Rightarrow> slice_branch (int axis) (Some k) (Some (k + 1)) None st
      | Slice start stop step \<Rightarrow> slice_branch (int axis) start stop step st
      | Multi xs \<Rightarrow>
          (case slice_accum (fst st) (int axis) xs of
             Inl e \<Rightarrow> Inl e
           | Inr acc \<Rightarrow>
               if length acc > 1 then Inr (Ops_splice acc (int axis), snd st)
               else (case py_index acc 0 of Inl e \<Rightarrow> Inl e | Inr x \<Rightarrow> Inr (x, snd st)))
      | Other t \<Rightarrow> Inl (IndexError ''type is not supported as index''))"

fun tensor_getitem_loop ::
  "nat \<Rightarrow> nat \<Rightarrow> selector list \<Rightarrow> node \<times> int \<Rightarrow> error + node \<times> int" where
  "tensor_getitem_loop n axis [] st = Inr st"
| "tensor_getitem_loop n axis (s # arg) st =
     (case tensor_getitem_step n axis s st of
        Inl e \<Rightarrow> Inl e
      | Inr st' \<Rightarrow> tensor_getitem_loop n (Suc axis) arg st')"

definition tensor_getitem :: "node \<Rightarrow> selector list \<Rightarrow> error + node" where
  "tensor_getitem self arg =
     (case tensor_getitem_loop (length arg) 0 arg (self, 0) of
        Inl e \<Rightarrow> Inl e
      | Inr (r, axis0) \<Rightarrow> Inr r)"

subsection \<open>\<^verbatim>\<open>ArrayMixin.asarray\<close>\<close>

text \<open>
  What \<^verbatim>\<open>asarray\<close> reads of the objects it is installed on. \<open>nd_info\<close> is an NDArrayView
  (\<^verbatim>\<open>is_sparse()\<close>, \<^verbatim>\<open>shape\<close>); \<open>value_info\<close> is a Value: \<^verbatim>\<open>is_sparse()\<close>, \<^verbatim>\<open>mask()\<close>
  (\<^verbatim>\<open>None\<close> or an NDMask) and its data. The flag of \<open>Constant\<close>, \<open>Parameter\<close> and \<open>Value\<close>
  says whether the object is an instance of the Python subclass (\<^verbatim>\<open>cntk.Constant\<close>, ...)
  or of the \<^verbatim>\<open>cntk_py\<close> class only. \<open>MinibatchData v\<close> has the Value \<open>v\<close> as its
  \<^verbatim>\<open>data\<close>.
\<close>

record nd_info =
  nd_id :: nat
  nd_is_sparse :: bool
  nd_shape :: "int list"

record value_info =
  value_is_sparse :: bool
  value_mask :: "nat option"
  value_data :: nd_info

datatype pyobject =
    Constant bool nd_info
  | Parameter bool nd_info
  | NDArrayViewObj nd_info
  | NDMask nat
  | Value bool value_info
  | MinibatchData bool value_info
  | Object string

datatype warning = MaskIgnored | CsrSlow

text \<open>The object whose \<^verbatim>\<open>to_ndarray()\<close> gives the dense result: a view or a mask.\<close>

datatype source = ViewData nat | MaskData nat

datatype dense_data = DenseArray nat | DenseList "nat list"

datatype converted = Ndarray source | CsrMatrix nat | CsrMatrices "nat list"

text \<open>\<^verbatim>\<open>shape[-1]\<close>.\<close>

definition py_last :: "'a list \<Rightarrow> error + 'a" where
  "py_last xs = (if xs = [] then Inl (IndexError ''index out of range'') else Inr (last xs))"

text \<open>
  The sparse conversion is not part of the repository. \<open>network_cache n\<close> stands for the
  import and call \<^verbatim>\<open>_sparse_to_dense_network_cache((n,))\<close>, which returns a network or
  raises; \<open>network_eval net self\<close> stands for \<^verbatim>\<open>net.eval(self, device=self.device())\<close>,
  which returns one array or a list of arrays, or raises.
\<close>

record converter =
  network_cache :: "int \<Rightarrow> error + nat"
  network_eval :: "nat \<Rightarrow> pyobject \<Rightarrow> error + dense_data"

text \<open>
  The second half of \<^verbatim>\<open>asarray\<close>, from \<^verbatim>\<open>if is_sparse:\<close> on; \<open>ws\<close> are the warnings
  emitted so far. The statements of the sparse branch in the order of the source: the
  network for \<^verbatim>\<open>ndav.shape[-1]\<close> is looked up, then the second warning is emitted, then the
  network is evaluated. An exception of the subscript or of the lookup leaves the
  warnings as they were.
\<close>

definition materialize ::
  "converter \<Rightarrow> pyobject \<Rightarrow> source \<Rightarrow> int list \<Rightarrow> bool \<Rightarrow> warning list
     \<Rightarrow> (error + converted) \<times> warning list" where
  "materialize cv self ndav ndav_shape is_sparse ws =
     (if is_sparse then
        (case py_last ndav_shape of
           Inl e \<Rightarrow> (Inl e, ws)
         | Inr n \<Rightarrow>
             (case network_cache cv n of
                Inl e \<Rightarrow> (Inl e, ws)
              | Inr network \<Rightarrow>
                  (case network_eval cv network self of
                     Inl e \<Rightarrow> (Inl e, ws @ [CsrSlow])
                   | Inr (DenseList ds) \<Rightarrow> (Inr (CsrMatrices ds), ws @ [CsrSlow])
                   | Inr (DenseArray d) \<Rightarrow> (Inr (CsrMatrix d), ws @ [CsrSlow]))))
      else (Inr (Ndarray ndav), ws))"

text \<open>
  \<^verbatim>\<open>asarray(self)\<close>: the \<^verbatim>\<open>isinstance\<close> chain binds \<^verbatim>\<open>ndav\<close> and \<^verbatim>\<open>is_sparse\<close>; for a Value
  or MinibatchData it also warns when there is a mask. An object of no listed class leaves
  \<^verbatim>\<open>is_sparse\<close> unbound.
\<close>

definition of_value ::
  "converter \<Rightarrow> pyobject \<Rightarrow> value_info \<Rightarrow> (error + converted) \<times> warning list" where
  "of_value cv self v =
     (let is_sparse = value_is_sparse v;
          has_mask = (value_mask v \<noteq> None);
          ndav = value_data v
      in materialize cv self (ViewData (nd_id ndav)) (nd_shape ndav) is_sparse
           (if has_mask then [MaskIgnored] else []))"

definition asarray ::
  "converter \<Rightarrow> pyobject \<Rightarrow> (error + converted) \<times> warning list" where
  "asarray cv self =
     (case self of
        Constant py ndav \<Rightarrow>
          materialize cv self (ViewData (nd_id ndav)) (nd_shape ndav) (nd_is_sparse ndav) []
      | Parameter py ndav \<Rightarrow>
          materialize cv self (ViewData (nd_id ndav)) (nd_shape ndav) (nd_is_sparse ndav) []
      | NDArrayViewObj ndav \<Rightarrow>
          materialize cv self (ViewData (nd_id ndav)) (nd_shape ndav) (nd_is_sparse ndav) []
      | NDMask m \<Rightarrow> materialize cv self (MaskData m) [] False []
      | Value py v \<Rightarrow> of_value cv self v
      | MinibatchData py v \<Rightarrow> of_value cv self v
      | Object t \<Rightarrow> (Inl (UnboundLocalError ''is_sparse''), []))"

subsection \<open>Concrete inputs\<close>

text \<open>
  A runtime that carries out every call, a handle with a buffer of its own, and a state in
  which nothing has been called yet: the inputs at which the theorems below are instantiated.
\<close>

definition accept_all :: runtime where
  "accept_all = \<lparr>accepts = (\<lambda>c. True), product_attrs = (\<lambda>c. ([1], Float32, 0))\<rparr>"

definition handle :: "nat \<Rightarrow> int list \<Rightarrow> ndarrayview" where
  "handle n shp =
     \<lparr>oid = n, cls = ''NDArrayView'', shape = shp, dtype = Float32, device = 0,
      read_only = False, storage = Buffer n\<rparr>"

definition fresh_world :: "nat \<Rightarrow> world" where
  "fresh_world n = \<lparr>calls = [], next_id = n\<rparr>"

text \<open>
  An ordinary class without attributes of its own, the built-in class \<^verbatim>\<open>object\<close>, which has
  none of the operator names and refuses \<^verbatim>\<open>setattr\<close>, and a sparse conversion that succeeds.
\<close>

definition plain_class :: pyclass where
  "plain_class = \<lparr>attrs = Map.empty, set_error = (\<lambda>name. None)\<rparr>"

definition object_class :: pyclass where
  "object_class =
     \<lparr>attrs = Map.empty,
      set_error = (\<lambda>name. Some (TypeError ''cannot set attribute of built-in type''))\<rparr>"

definition convert_ok :: converter where
  "convert_ok =
     \<lparr>network_cache = (\<lambda>n. Inr 0), network_eval = (\<lambda>net self. Inr (DenseList [7, 8]))\<rparr>"

section \<open>Properties\<close>

lemmas loop_defs =
  getitem_step_def add_if_negative_def or_zero_def py_index_def store3_def set_item_def

lemmas prim_defs =
  slice_view_def as_shape_def reshape_def issue_def numeric_operation_in_place_def
  matrix_product_def mat_prod_def NDArrayView_new_def

lemmas input_defs = accept_all_def handle_def fresh_world_def

subsection \<open>Direct-mode indexing\<close>

text \<open>
  C1. For a handle of shape \<open>(4,5,6)\<close> the key \<^verbatim>\<open>[1:3, :, 2]\<close> should give a view of shape
  \<open>(2,5)\<close>. The code sets \<^verbatim>\<open>dims_to_keep[i] = s.stop is not None\<close>, so the axis selected
  by \<^verbatim>\<open>:\<close> is marked for removal together with the axis selected by the int: the view of
  shape \<open>(2,5,1)\<close> is reshaped to \<open>(2,)\<close>, which the reshape rule refuses (10 elements
  against 2). This holds for every handle of that shape and every state.
\<close>

theorem getitem_full_slice_axis_dropped:
  "getitem (h\<lparr>shape := [4, 5, 6]\<rparr>)
       [Slice (Some 1) (Some 3) None, Slice None None None, Index 2] False w =
     (Inl (NativeError ''as_shape''),
      w\<lparr>calls := calls w @
           [SliceView (h\<lparr>shape := [4, 5, 6]\<rparr>) [PyInt 1, PyInt 0, PyInt 2] [2, 5, 1] (read_only h),
            AsShape \<lparr>oid = next_id w, cls = cls h, shape = [2, 5, 1], dtype = dtype h,
                     device = device h, read_only = read_only h,
                     storage = SubRegion (storage h) [1, 0, 2] [2, 5, 1]\<rparr> [2]],
        next_id := Suc (next_id w)\<rparr>)"
  by (simp add: getitem_def loop_defs prim_defs eval_nat_numeral)

text \<open>
  C3. A slice with a step other than \<^verbatim>\<open>None\<close> and 1 should raise the slicing error in both
  \<^verbatim>\<open>__getitem__\<close> functions. In direct mode the test reads \<^verbatim>\<open>i[2] != 1\<close> where \<open>i\<close> is the
  loop counter, so every slice that has a stop and a step (also step 1) raises TypeError,
  for every handle; the graph-building function raises the ValueError for
  \<^verbatim>\<open>slice(0, 10, 2)\<close>.
\<close>

theorem getitem_slice_step_raises:
  "getitem h [Slice start (Some e) (Some k)] keep_singles w =
     (Inl (TypeError ''int object is not subscriptable''), w)
   \<and> tensor_getitem r [Slice (Some 0) (Some 10) (Some 2)] =
     Inl (ValueError ''slicing with a step other than 1 is currently not supported'')"
  by (simp add: getitem_def loop_defs tensor_getitem_def tensor_getitem_step_def
      slice_branch_def)

text \<open>
  C7. On a handle of shape \<open>(10,)\<close> the selector \<^verbatim>\<open>slice(-3, -1)\<close> gives one
  \<^verbatim>\<open>slice_view\<close> call with start offset 7 and extent 2; the result is that view, of shape
  \<open>(2,)\<close>, on the storage of the handle.
\<close>

theorem getitem_negative_slice:
  assumes "shape h = [10]"
  shows "getitem h [Slice (Some (- 3)) (Some (- 1)) None] keep_singles w =
     (Inr \<lparr>oid = next_id w, cls = cls h, shape = [2], dtype = dtype h, device = device h,
           read_only = read_only h, storage = SubRegion (storage h) [7] [2]\<rparr>,
      w\<lparr>calls := calls w @ [SliceView h [PyInt 7] [2] (read_only h)],
        next_id := Suc (next_id w)\<rparr>)"
  using assms by (simp add: getitem_def loop_defs prim_defs)

text \<open>At handle 0 of shape \<open>(10,)\<close>, with nothing called before.\<close>

theorem getitem_negative_slice_witness:
  "shape (handle 0 [10]) = [10]
   \<and> getitem (handle 0 [10]) [Slice (Some (- 3)) (Some (- 1)) None] False (fresh_world 1) =
     (Inr \<lparr>oid = 1, cls = ''NDArrayView'', shape = [2], dtype = Float32, device = 0,
           read_only = False, storage = SubRegion (Buffer 0) [7] [2]\<rparr>,
      \<lparr>calls = [SliceView (handle 0 [10]) [PyInt 7] [2] False], next_id = 2\<rparr>)"
proof -
  have h: "shape (handle 0 [10]) = [10]"
    by (simp add: handle_def)
  show ?thesis
    using h getitem_negative_slice [OF h, of False "fresh_world 1"]
    by (simp add: input_defs)
qed

subsection \<open>In-place operators\<close>

text \<open>
  C5. \<^verbatim>\<open>__isub__(a, b)\<close> issues exactly one call, the in-place operation on \<open>a\<close> with
  \<open>b\<close> scaled by \<open>-1.0\<close>, creates no object, and returns \<open>a\<close> itself (or the runtime's
  error); \<^verbatim>\<open>__iadd__\<close> does the same with scale \<open>1.0\<close>. When the runtime carries the call
  out, every handle \<open>h\<close> on the buffer of \<open>a\<close> sees it as the latest mutation.
\<close>

theorem isub_iadd_in_place:
  "isub rt a b w =
     (if accepts rt (NumericOperationInPlace a 1 [b] (- 1) 2 24) then Inr a
      else Inl (NativeError ''numeric_operation_in_place''),
      w\<lparr>calls := calls w @ [NumericOperationInPlace a 1 [b] (- 1) 2 24]\<rparr>)
   \<and> iadd rt a b w =
     (if accepts rt (NumericOperationInPlace a 1 [b] 1 2 24) then Inr a
      else Inl (NativeError ''numeric_operation_in_place''),
      w\<lparr>calls := calls w @ [NumericOperationInPlace a 1 [b] 1 2 24]\<rparr>)
   \<and> (accepts rt (NumericOperationInPlace a 1 [b] (- 1) 2 24) \<longrightarrow>
        root_buffer (storage h) = root_buffer (storage a) \<longrightarrow>
        mutations rt (snd (isub rt a b w)) h =
          mutations rt w h @ [NumericOperationInPlace a 1 [b] (- 1) 2 24])
   \<and> (accepts rt (NumericOperationInPlace a 1 [b] 1 2 24) \<longrightarrow>
        root_buffer (storage h) = root_buffer (storage a) \<longrightarrow>
        mutations rt (snd (iadd rt a b w)) h =
          mutations rt w h @ [NumericOperationInPlace a 1 [b] 1 2 24])"
  by (simp add: isub_def iadd_def numeric_operation_in_place_def issue_def mutations_def)

text \<open>
  The witness: \<open>a\<close> is handle 0, \<open>b\<close> handle 1, and the observer is a second object
  (identity 5) on the buffer of \<open>a\<close>.
\<close>

theorem isub_iadd_in_place_witness:
  "accepts accept_all (NumericOperationInPlace (handle 0 [2]) 1 [handle 1 [2]] (- 1) 2 24)
   \<and> root_buffer (storage ((handle 0 [2])\<lparr>oid := 5\<rparr>)) = root_buffer (storage (handle 0 [2]))
   \<and> fst (isub accept_all (handle 0 [2]) (handle 1 [2]) (fresh_world 2)) = Inr (handle 0 [2])
   \<and> mutations accept_all (fresh_world 2) ((handle 0 [2])\<lparr>oid := 5\<rparr>) = []
   \<and> mutations accept_all (snd (isub accept_all (handle 0 [2]) (handle 1 [2]) (fresh_world 2)))
        ((handle 0 [2])\<lparr>oid := 5\<rparr>) =
      [NumericOperationInPlace (handle 0 [2]) 1 [handle 1 [2]] (- 1) 2 24]
   \<and> mutations accept_all (snd (iadd accept_all (handle 0 [2]) (handle 1 [2]) (fresh_world 2)))
        ((handle 0 [2])\<lparr>oid := 5\<rparr>) =
      [NumericOperationInPlace (handle 0 [2]) 1 [handle 1 [2]] 1 2 24]"
  using isub_iadd_in_place [of accept_all "handle 0 [2]" "handle 1 [2]" "fresh_world 2"
      "(handle 0 [2])\<lparr>oid := 5\<rparr>"]
  by (simp add: input_defs mutations_def)

subsection \<open>The matrix product\<close>

text \<open>
  C2, as stated, at a receiver of rank 0: \<open>a\<close> is handle 0 of shape \<open>()\<close>, \<open>b\<close> handle 1 of
  shape \<open>(3,)\<close>. \<^verbatim>\<open>a.dot(b)\<close> issues three calls, and the second operand of the matrix
  product is the handle constructed on the way (identity 2), not \<open>a\<close>.
\<close>

theorem dot_scalar_receiver_counterexample:
  "calls (snd (dot accept_all (handle 0 []) (handle 1 [3]) (fresh_world 2))) =
     [Construct (IntShape 3) Float32 0,
      NumericOperationInPlace (handle 2 [3]) 0 [handle 0 []] 1 2 24,
      MatrixProduct False (handle 1 [3]) False (handle 2 [3]) False 1 1]
   \<and> handle 2 [3] \<noteq> handle 0 []"
  by (simp add: dot_def matmul_def prim_defs py_index_def input_defs)

text \<open>
  C2, amended. For a receiver \<open>a\<close> of rank at least 1 and every \<open>b\<close>, \<^verbatim>\<open>a.dot(b)\<close> and
  \<^verbatim>\<open>a @ b\<close> issue exactly one call, \<^verbatim>\<open>matrix_product(False, b, False, a, False, 1.0, 1)\<close>:
  \<open>b\<close> is the first operand and \<open>a\<close> the second. \<^verbatim>\<open>a.dot_transpose(b)\<close> issues the same
  call with the flag that follows \<open>b\<close> set, for a receiver of any rank.
\<close>

theorem dot_operands_swapped:
  "(shape a \<noteq> [] \<longrightarrow>
      calls (snd (dot rt a b w)) = calls w @ [MatrixProduct False b False a False 1 1]
    \<and> calls (snd (matmul rt a b w)) = calls w @ [MatrixProduct False b False a False 1 1])
   \<and> calls (snd (dot_transpose rt a b w)) = calls w @ [MatrixProduct False b True a False 1 1]"
  by (auto simp add: dot_def matmul_def dot_transpose_def mat_prod_def matrix_product_def
      issue_def Let_def split: prod.splits)

text \<open>At \<open>a\<close> of shape \<open>(3,4)\<close> and \<open>b\<close> of shape \<open>(4,5)\<close>.\<close>

theorem dot_operands_swapped_witness:
  "shape (handle 0 [3, 4]) \<noteq> []
   \<and> calls (snd (dot accept_all (handle 0 [3, 4]) (handle 1 [4, 5]) (fresh_world 2))) =
       [MatrixProduct False (handle 1 [4, 5]) False (handle 0 [3, 4]) False 1 1]
   \<and> calls (snd (dot_transpose accept_all (handle 0 [3, 4]) (handle 1 [4, 5]) (fresh_world 2))) =
       [MatrixProduct False (handle 1 [4, 5]) True (handle 0 [3, 4]) False 1 1]"
  using dot_operands_swapped [of "handle 0 [3, 4]" accept_all "handle 1 [4, 5]" "fresh_world 2"]
  by (simp add: input_defs)

text \<open>
  C4, as stated, at two operands of rank 0: \<^verbatim>\<open>other.shape[0]\<close> raises IndexError; no
  handle is allocated and no call is issued.
\<close>

theorem matmul_two_scalars_counterexample:
  "matmul accept_all (handle 0 []) (handle 1 []) (fresh_world 2) =
     (Inl (IndexError ''index out of range''), fresh_world 2)"
  by (simp add: matmul_def py_index_def input_defs)

text \<open>
  C4, amended. When the receiver \<open>a\<close> has rank 0, the other operand \<open>b\<close> has rank at least 1
  and the runtime carries the calls out, \<^verbatim>\<open>a @ b\<close> issues three calls in this order: the
  construction of a new handle from \<open>b\<close>'s leading extent \<^verbatim>\<open>b.shape[0]\<close>, data type and
  device; the in-place copy of \<open>a\<close> into it (\<open>beta = 0.0\<close>, \<open>alpha = 1.0\<close>, \<open>op = 2\<close>); and the
  matrix product with \<open>b\<close> first and the new handle second. The new handle has storage of
  its own.
\<close>

theorem matmul_scalar_receiver_materialized:
  assumes "shape a = []" and "shape b = n # ns" and "\<And>c. accepts rt c"
  shows "\<exists>self1 res w'.
      matmul rt a b w = (Inr res, w')
    \<and> calls w' = calls w @
          [Construct (IntShape n) (dtype b) (device b),
           NumericOperationInPlace self1 0 [a] 1 2 24,
           MatrixProduct False b False self1 False 1 1]
    \<and> shape self1 = [n] \<and> dtype self1 = dtype b \<and> device self1 = device b
    \<and> storage self1 = Buffer (next_id w) \<and> oid self1 = next_id w"
  using assms
  by (auto simp add: matmul_def prim_defs py_index_def Let_def split: prod.splits)

text \<open>At a receiver of shape \<open>()\<close> and \<open>b\<close> of shape \<open>(3,4)\<close>: the new handle has shape \<open>(3,)\<close>.\<close>

theorem matmul_scalar_receiver_materialized_witness:
  "shape (handle 0 []) = [] \<and> shape (handle 1 [3, 4]) = [3, 4] \<and> (\<forall>c. accepts accept_all c)
   \<and> (\<exists>self1 res w'.
        matmul accept_all (handle 0 []) (handle 1 [3, 4]) (fresh_world 2) = (Inr res, w')
      \<and> calls w' =
          [Construct (IntShape 3) Float32 0,
           NumericOperationInPlace self1 0 [handle 0 []] 1 2 24,
           MatrixProduct False (handle 1 [3, 4]) False self1 False 1 1]
      \<and> shape self1 = [3] \<and> storage self1 = Buffer 2 \<and> oid self1 = 2)"
proof -
  have a: "shape (handle 0 []) = []" and b: "shape (handle 1 [3, 4]) = 3 # [4]"
    by (simp_all add: handle_def)
  have acc: "\<And>c. accepts accept_all c"
    by (simp add: accept_all_def)
  from matmul_scalar_receiver_materialized [OF a b acc, of "fresh_world 2"]
  obtain self1 res w' where
      "matmul accept_all (handle 0 []) (handle 1 [3, 4]) (fresh_world 2) = (Inr res, w')"
      "calls w' = calls (fresh_world 2) @
          [Construct (IntShape 3) (dtype (handle 1 [3, 4])) (device (handle 1 [3, 4])),
           NumericOperationInPlace self1 0 [handle 0 []] 1 2 24,
           MatrixProduct False (handle 1 [3, 4]) False self1 False 1 1]"
      "shape self1 = [3]" "storage self1 = Buffer (next_id (fresh_world 2))"
      "oid self1 = next_id (fresh_world 2)"
    by blast
  then have "\<exists>self1 res w'.
        matmul accept_all (handle 0 []) (handle 1 [3, 4]) (fresh_world 2) = (Inr res, w')
      \<and> calls w' =
          [Construct (IntShape 3) Float32 0,
           NumericOperationInPlace self1 0 [handle 0 []] 1 2 24,
           MatrixProduct False (handle 1 [3, 4]) False self1 False 1 1]
      \<and> shape self1 = [3] \<and> storage self1 = Buffer 2 \<and> oid self1 = 2"
    by (simp add: handle_def fresh_world_def)
  with a b acc show ?thesis
    by simp
qed

subsection \<open>Splice of a single item\<close>

lemma ints_of_zeros: "ints_of (replicate n (PyInt 0)) = Some (replicate n 0)"
  by (induction n) simp_all

lemma in_bounds_whole:
  "list_all (\<lambda>x. 0 \<le> x) ds \<Longrightarrow> in_bounds ds (replicate (length ds) 0) ds"
  by (induction ds) simp_all

lemma prod_list_ones: "prod_list (replicate k (1::int) @ xs) = prod_list xs"
  by (induction k) simp_all

lemma pos_nonneg: "list_all (\<lambda>d. 0 < d) xs \<Longrightarrow> list_all (\<lambda>x. (0::int) \<le> x) xs"
  by (induction xs) simp_all

text \<open>The write path for the key \<^verbatim>\<open>(0,)\<close>: the view of the first position on axis 0, all axes kept.\<close>

lemma getitem_index0_keep:
  assumes "shape res = d # ds" and "1 \<le> d" and "list_all (\<lambda>x. 0 \<le> x) ds"
  shows "getitem res [Index 0] True w =
     (Inr \<lparr>oid = next_id w, cls = cls res, shape = 1 # ds, dtype = dtype res,
           device = device res, read_only = read_only res,
           storage = SubRegion (storage res) (replicate (Suc (length ds)) 0) (1 # ds)\<rparr>,
      w\<lparr>calls := calls w @
           [SliceView res (PyInt 0 # replicate (length ds) (PyInt 0)) (1 # ds) (read_only res)],
        next_id := Suc (next_id w)\<rparr>)"
  using assms
  by (simp add: getitem_def loop_defs slice_view_def issue_def ints_of_zeros in_bounds_whole)

text \<open>
  One round of the loop of \<^verbatim>\<open>splice\<close>: the item is reshaped to the common shape and copied
  into the view of position 0; that copy is the last call issued.
\<close>

lemma splice_loop_single:
  assumes acc: "\<And>c. accepts rt c"
    and shp: "shape res = d # ds"
    and d: "1 \<le> d" and ds: "list_all (\<lambda>x. 0 \<le> x) ds"
    and pr: "prod_list (d # ds) = prod_list (shape a)"
  shows "\<exists>w' view v. splice_loop rt res (d # ds) 0 0 [a] w = (Inr (), w')
       \<and> last (calls w') = NumericOperationInPlace view 0 [v] 1 2 24
       \<and> storage view = SubRegion (storage res) (replicate (Suc (length ds)) 0) (1 # ds)
       \<and> shape v = d # ds \<and> storage v = Reshaped (storage a) (d # ds)"
  using acc shp d ds pr
  by (simp add: setitem_def getitem_index0_keep reshape_def as_shape_def issue_def
      numeric_operation_in_place_def)

text \<open>
  C6. Let the runtime carry the calls out and let \<open>a\<close> be a handle (all extents positive).
  If \<open>a\<close> has rank at least 1, \<^verbatim>\<open>splice([a], axis=0)\<close> returns a handle whose shape is the
  shape of \<open>a\<close>. For a negative \<open>axis\<close>, \<^verbatim>\<open>splice([a], axis)\<close> returns a handle whose shape is
  the shape of \<open>a\<close> with \<open>-axis\<close> unit axes prepended, and the last call copies \<open>a\<close>,
  reshaped to that shape, into the view that covers the whole result.
\<close>

theorem splice_single_item:
  assumes acc: "\<And>c. accepts rt c" and pos: "list_all (\<lambda>d. 0 < d) (shape a)"
  shows "(shape a \<noteq> [] \<longrightarrow>
            (\<exists>res w'. splice_views rt [a] 0 w = (Inr res, w') \<and> shape res = shape a))
       \<and> (axis < 0 \<longrightarrow>
            (\<exists>res w' view v. splice_views rt [a] axis w = (Inr res, w')
               \<and> shape res = replicate (nat (- axis)) 1 @ shape a
               \<and> last (calls w') = NumericOperationInPlace view 0 [v] 1 2 24
               \<and> storage view =
                   SubRegion (storage res) (replicate (length (shape res)) 0) (shape res)
               \<and> shape v = shape res \<and> storage v = Reshaped (storage a) (shape res)))"
proof (intro conjI impI)
  assume "shape a \<noteq> []"
  then obtain d ds where s: "shape a = d # ds"
    by (cases "shape a") auto
  with pos have d: "1 \<le> d" and ds: "list_all (\<lambda>x. 0 \<le> x) ds"
    by (simp_all add: pos_nonneg)
  obtain res w1 where
    n: "NDArrayView_new (TupleShape (d # ds)) (dtype a) (device a) w = (res, w1)"
    by (cases "NDArrayView_new (TupleShape (d # ds)) (dtype a) (device a) w")
  then have r: "shape res = d # ds"
    by (auto simp add: NDArrayView_new_def)
  from splice_loop_single [OF acc r d ds, of a w1] s
  obtain w' where "splice_loop rt res (d # ds) 0 0 [a] w1 = (Inr (), w')"
    by auto
  with s n r show "\<exists>res w'. splice_views rt [a] 0 w = (Inr res, w') \<and> shape res = shape a"
    by (simp add: splice_views_def py_index_def Let_def)
next
  assume neg: "axis < 0"
  define k where "k = nat (- axis) - 1"
  define ds where "ds = replicate k 1 @ shape a"
  from neg have rep: "replicate (nat (- axis)) (1::int) = 1 # replicate k 1"
    unfolding k_def by (cases "nat (- axis)") auto
  have shp: "replicate (nat (- axis)) 1 @ shape a = 1 # ds"
    by (simp add: rep ds_def)
  have "list_all (\<lambda>x. 0 \<le> x) (replicate k (1::int))"
    by (induction k) simp_all
  with pos have dsn: "list_all (\<lambda>x. 0 \<le> x) ds"
    by (simp add: ds_def pos_nonneg)
  have pr: "prod_list (1 # ds) = prod_list (shape a)"
    by (simp add: ds_def prod_list_ones)
  obtain res w1 where
    n: "NDArrayView_new (TupleShape (1 # ds)) (dtype a) (device a) w = (res, w1)"
    by (cases "NDArrayView_new (TupleShape (1 # ds)) (dtype a) (device a) w")
  then have r: "shape res = 1 # ds"
    by (auto simp add: NDArrayView_new_def)
  from splice_loop_single [OF acc r _ dsn pr, of w1]
  obtain w' view v where l: "splice_loop rt res (1 # ds) 0 0 [a] w1 = (Inr (), w')"
     "last (calls w') = NumericOperationInPlace view 0 [v] 1 2 24"
     "storage view = SubRegion (storage res) (replicate (Suc (length ds)) 0) (1 # ds)"
     "shape v = 1 # ds" "storage v = Reshaped (storage a) (1 # ds)"
    by auto
  from neg n l(1) have "splice_views rt [a] axis w = (Inr res, w')"
    by (simp add: splice_views_def py_index_def shp Let_def)
  with l r shp show "\<exists>res w' view v. splice_views rt [a] axis w = (Inr res, w')
               \<and> shape res = replicate (nat (- axis)) 1 @ shape a
               \<and> last (calls w') = NumericOperationInPlace view 0 [v] 1 2 24
               \<and> storage view =
                   SubRegion (storage res) (replicate (length (shape res)) 0) (shape res)
               \<and> shape v = shape res \<and> storage v = Reshaped (storage a) (shape res)"
    by auto
qed

text \<open>At \<open>a\<close> of shape \<open>(2,3)\<close>, for \<open>axis = 0\<close> and \<open>axis = -2\<close>.\<close>

theorem splice_single_item_witness:
  "(\<forall>c. accepts accept_all c) \<and> list_all (\<lambda>d. 0 < d) (shape (handle 0 [2, 3]))
   \<and> shape (handle 0 [2, 3]) \<noteq> [] \<and> (- 2 :: int) < 0
   \<and> (\<exists>res w'. splice_views accept_all [handle 0 [2, 3]] 0 (fresh_world 1) = (Inr res, w')
        \<and> shape res = [2, 3])
   \<and> (\<exists>res w'. splice_views accept_all [handle 0 [2, 3]] (- 2) (fresh_world 1) = (Inr res, w')
        \<and> shape res = [1, 1, 2, 3])"
proof -
  have acc: "\<And>c. accepts accept_all c"
    by (simp add: accept_all_def)
  have pos: "list_all (\<lambda>d. 0 < d) (shape (handle 0 [2, 3]))"
    by (simp add: handle_def)
  have ne: "shape (handle 0 [2, 3]) \<noteq> []"
    by (simp add: handle_def)
  have sh: "shape (handle 0 [2, 3]) = [2, 3]"
    by (simp add: handle_def)
  from splice_single_item [OF acc pos, of "fresh_world 1" "- 2"] ne
  have "(\<exists>res w'. splice_views accept_all [handle 0 [2, 3]] 0 (fresh_world 1) = (Inr res, w')
          \<and> shape res = shape (handle 0 [2, 3]))"
    and "(\<exists>res w'. splice_views accept_all [handle 0 [2, 3]] (- 2) (fresh_world 1) = (Inr res, w')
          \<and> shape res = replicate (nat (- (- 2))) 1 @ shape (handle 0 [2, 3]))"
    by auto
  with acc pos ne show ?thesis
    by (simp add: sh eval_nat_numeral)
qed

subsection \<open>Graph-building indexing\<close>

lemma slice_accum_ints:
  "slice_accum r axis (map IntItem ns) = Inr (map (\<lambda>i. Ops_slice r axis i (i + 1)) ns)"
  by (induction ns) simp_all

lemma slice_accum_other:
  "OtherItem t \<in> set xs \<Longrightarrow>
     slice_accum r axis xs = Inl (IndexError ''indices have to be of type int'')"
proof (induction xs)
  case Nil
  then show ?case by simp
next
  case (Cons x xs)
  then show ?case
    by (cases x) (auto split: sum.splits)
qed

text \<open>
  C8, as stated, at the key \<^verbatim>\<open>[[-1]]\<close>: the multi-select path does not reject the negative
  index; it builds \<^verbatim>\<open>ops.slice(x, axis=0, begin_index=-1, end_index=0)\<close>.
\<close>

theorem tensor_getitem_multi_negative_counterexample:
  "tensor_getitem (Variable ''x'') [Multi [IntItem (- 1)]] =
     Inr (Ops_slice (Variable ''x'') 0 (- 1) 0)"
  by (simp add: tensor_getitem_def tensor_getitem_step_def py_index_def)

text \<open>
  C8, amended. In the graph-building \<^verbatim>\<open>__getitem__\<close> the plain integer path and the
  tuple/list multi-select path both hand every integer \<open>i\<close>, negative or not, to
  \<^verbatim>\<open>ops.slice\<close> as \<open>begin_index = i\<close>, \<open>end_index = i + 1\<close>, neither normalizing nor rejecting
  it (several elements are spliced along the axis); the multi-select path raises IndexError for
  a tuple or list with an element that is not an int.
\<close>

theorem tensor_getitem_integers_pass_through:
  "tensor_getitem r [Index i] = Inr (Ops_slice r 0 i (i + 1))
   \<and> tensor_getitem r [Multi [IntItem i]] = Inr (Ops_slice r 0 i (i + 1))
   \<and> (length ns > 1 \<longrightarrow> tensor_getitem r [Multi (map IntItem ns)] =
         Inr (Ops_splice (map (\<lambda>i. Ops_slice r 0 i (i + 1)) ns) 0))
   \<and> (OtherItem t \<in> set xs \<longrightarrow> tensor_getitem r [Multi xs] =
         Inl (IndexError ''indices have to be of type int''))"
  using slice_accum_other [of t xs r 0]
  by (auto simp add: tensor_getitem_def tensor_getitem_step_def py_index_def slice_branch_def
      or_zero_def slice_accum_ints)

text \<open>At the keys \<^verbatim>\<open>[-2]\<close>, \<^verbatim>\<open>[[-1, 3]]\<close> and \<^verbatim>\<open>[[1, 2.5]]\<close> on a variable \<open>x\<close>.\<close>

theorem tensor_getitem_integers_pass_through_witness:
  "tensor_getitem (Variable ''x'') [Index (- 2)] = Inr (Ops_slice (Variable ''x'') 0 (- 2) (- 1))
   \<and> length [- 1, 3 :: int] > 1
   \<and> tensor_getitem (Variable ''x'') [Multi [IntItem (- 1), IntItem 3]] =
       Inr (Ops_splice [Ops_slice (Variable ''x'') 0 (- 1) 0, Ops_slice (Variable ''x'') 0 3 4] 0)
   \<and> OtherItem ''float'' \<in> set [IntItem 1, OtherItem ''float'']
   \<and> tensor_getitem (Variable ''x'') [Multi [IntItem 1, OtherItem ''float'']] =
       Inl (IndexError ''indices have to be of type int'')"
  using tensor_getitem_integers_pass_through
    [of "Variable ''x''" "- 2" "[- 1, 3]" "''float''" "[IntItem 1, OtherItem ''float'']"]
  by simp

subsection \<open>Conversion of masked data\<close>

text \<open>
  C9, as stated, at a sparse Value with mask 9 whose data has rank 0, with a sparse
  conversion that succeeds: after the mask warning, \<^verbatim>\<open>ndav.shape[-1]\<close> raises IndexError and
  nothing is returned.
\<close>

theorem asarray_rank0_sparse_counterexample:
  "asarray convert_ok
     (Value True \<lparr>value_is_sparse = True, value_mask = Some 9,
                  value_data = \<lparr>nd_id = 4, nd_is_sparse = True, nd_shape = []\<rparr>\<rparr>)
   = (Inl (IndexError ''index out of range''), [MaskIgnored])"
  by (simp add: asarray_def of_value_def materialize_def py_last_def)

text \<open>
  C9, amended. Let \<open>self\<close> be a Value, or a MinibatchData holding a Value, whose mask is not
  \<^verbatim>\<open>None\<close>. \<^verbatim>\<open>asarray\<close> emits the mask warning first. Dense data gives the ndarray of the
  data. Sparse data of rank at least 1 gives, after the second warning, the CSR matrix or
  matrices of what the network returns, when the lookup of the network and its evaluation
  succeed; an exception of the lookup is raised before the second warning, one of the
  evaluation after it. An exception is never raised on account of the mask: it is the
  IndexError of \<^verbatim>\<open>shape[-1]\<close> on sparse data of rank 0, or the exception of the lookup or
  of the evaluation.
\<close>

theorem asarray_mask_warns:
  assumes m: "value_mask v = Some m"
    and s: "self = Value py v \<or> self = MinibatchData py v"
  shows "hd (snd (asarray cv self)) = MaskIgnored \<and> snd (asarray cv self) \<noteq> []
    \<and> (\<not> value_is_sparse v \<longrightarrow>
          asarray cv self = (Inr (Ndarray (ViewData (nd_id (value_data v)))), [MaskIgnored]))
    \<and> (value_is_sparse v \<longrightarrow> nd_shape (value_data v) \<noteq> [] \<longrightarrow>
          network_cache cv (last (nd_shape (value_data v))) = Inr net \<longrightarrow>
          network_eval cv net self = Inr (DenseArray d) \<longrightarrow>
          asarray cv self = (Inr (CsrMatrix d), [MaskIgnored, CsrSlow]))
    \<and> (value_is_sparse v \<longrightarrow> nd_shape (value_data v) \<noteq> [] \<longrightarrow>
          network_cache cv (last (nd_shape (value_data v))) = Inr net \<longrightarrow>
          network_eval cv net self = Inr (DenseList ds) \<longrightarrow>
          asarray cv self = (Inr (CsrMatrices ds), [MaskIgnored, CsrSlow]))
    \<and> (value_is_sparse v \<longrightarrow> nd_shape (value_data v) \<noteq> [] \<longrightarrow>
          network_cache cv (last (nd_shape (value_data v))) = Inl e \<longrightarrow>
          asarray cv self = (Inl e, [MaskIgnored]))
    \<and> (value_is_sparse v \<longrightarrow> nd_shape (value_data v) \<noteq> [] \<longrightarrow>
          network_cache cv (last (nd_shape (value_data v))) = Inr net \<longrightarrow>
          network_eval cv net self = Inl e \<longrightarrow>
          asarray cv self = (Inl e, [MaskIgnored, CsrSlow]))
    \<and> (fst (asarray cv self) = Inl e \<longrightarrow>
          value_is_sparse v \<and>
          (nd_shape (value_data v) = [] \<and> e = IndexError ''index out of range''
           \<or> network_cache cv (last (nd_shape (value_data v))) = Inl e
           \<or> (\<exists>net'. network_cache cv (last (nd_shape (value_data v))) = Inr net'
                 \<and> network_eval cv net' self = Inl e)))"
proof -
  have eq: "asarray cv self = of_value cv self v"
    using s by (auto simp add: asarray_def)
  show ?thesis
  proof (cases "value_is_sparse v")
    case False
    then show ?thesis
      by (simp add: eq of_value_def materialize_def m)
  next
    case sp: True
    show ?thesis
    proof (cases "nd_shape (value_data v) = []")
      case True
      with sp show ?thesis
        by (simp add: eq of_value_def materialize_def py_last_def m)
    next
      case ne: False
      show ?thesis
      proof (cases "network_cache cv (last (nd_shape (value_data v)))")
        case (Inl x)
        with sp ne show ?thesis
          by (simp add: eq of_value_def materialize_def py_last_def m)
      next
        case (Inr n')
        with sp ne show ?thesis
          by (cases "network_eval cv n' self")
            (simp_all add: eq of_value_def materialize_def py_last_def m
              split: dense_data.splits)
      qed
    qed
  qed
qed

text \<open>
  At a dense and a sparse Value with mask 9, both of shape \<open>(2,3)\<close>; the sparse one is the
  data of a MinibatchData, and the network returns a list of two arrays.
\<close>

theorem asarray_mask_warns_witness:
  "value_mask \<lparr>value_is_sparse = False, value_mask = Some 9,
               value_data = \<lparr>nd_id = 4, nd_is_sparse = False, nd_shape = [2, 3]\<rparr>\<rparr> = Some 9
   \<and> asarray convert_ok
       (Value True \<lparr>value_is_sparse = False, value_mask = Some 9,
                    value_data = \<lparr>nd_id = 4, nd_is_sparse = False, nd_shape = [2, 3]\<rparr>\<rparr>)
     = (Inr (Ndarray (ViewData 4)), [MaskIgnored])
   \<and> network_cache convert_ok 3 = Inr 0
   \<and> asarray convert_ok
       (MinibatchData False \<lparr>value_is_sparse = True, value_mask = Some 9,
                    value_data = \<lparr>nd_id = 4, nd_is_sparse = True, nd_shape = [2, 3]\<rparr>\<rparr>)
     = (Inr (CsrMatrices [7, 8]), [MaskIgnored, CsrSlow])"
  using
    asarray_mask_warns [of "\<lparr>value_is_sparse = False, value_mask = Some 9,
               value_data = \<lparr>nd_id = 4, nd_is_sparse = False, nd_shape = [2, 3]\<rparr>\<rparr>" 9
      "Value True \<lparr>value_is_sparse = False, value_mask = Some 9,
                    value_data = \<lparr>nd_id = 4, nd_is_sparse = False, nd_shape = [2, 3]\<rparr>\<rparr>"
      True convert_ok]
    asarray_mask_warns [of "\<lparr>value_is_sparse = True, value_mask = Some 9,
               value_data = \<lparr>nd_id = 4, nd_is_sparse = True, nd_shape = [2, 3]\<rparr>\<rparr>" 9
      "MinibatchData False \<lparr>value_is_sparse = True, value_mask = Some 9,
                    value_data = \<lparr>nd_id = 4, nd_is_sparse = True, nd_shape = [2, 3]\<rparr>\<rparr>"
      False convert_ok 0 _ "[7, 8]"]
  by (simp add: convert_ok_def)

subsection \<open>Installing the direct-mode operators\<close>

lemma drop_axis_unbound: "map_of mixin_dict ''drop_axis'' = None"
  by (simp add: mixin_dict_def)

text \<open>A list of names that contains \<^verbatim>\<open>drop_axis\<close> cannot be installed on any class.\<close>

lemma add_ops_loop_stops:
  "''drop_axis'' \<in> set names \<Longrightarrow> fst (add_ops_loop names k) \<noteq> Inr ()"
proof (induction names arbitrary: k)
  case Nil
  then show ?case by simp
next
  case (Cons name names)
  show ?case
  proof (cases "name = ''drop_axis''")
    case True
    then show ?thesis
      by (simp add: drop_axis_unbound split: option.splits)
  next
    case False
    with Cons.prems have "''drop_axis'' \<in> set names"
      by simp
    then have "\<And>k'. fst (add_ops_loop names k') \<noteq> Inr ()"
      by (rule Cons.IH)
    then show ?thesis
      by (simp split: option.splits sum.splits)
  qed
qed

text \<open>
  C10, as stated, at a class that has been through \<^verbatim>\<open>_add_ndarrayview_ops\<close> once, and at
  \<^verbatim>\<open>object\<close>. The first call on an ordinary class without attributes raises KeyError
  for \<^verbatim>\<open>drop_axis\<close>, having set the fifteen names before it; a second call on that class
  raises ValueError for \<^verbatim>\<open>__add__\<close>, not KeyError. On \<^verbatim>\<open>object\<close> the first \<^verbatim>\<open>setattr\<close>
  raises TypeError.
\<close>

theorem add_ndarrayview_ops_second_call_counterexample:
  "fst (add_ndarrayview_ops plain_class) = Inl (KeyError ''drop_axis'')
   \<and> fst (add_ndarrayview_ops (snd (add_ndarrayview_ops plain_class))) =
       Inl (ValueError ''__add__'')
   \<and> fst (add_ndarrayview_ops object_class) =
       Inl (TypeError ''cannot set attribute of built-in type'')"
  by (simp add: add_ndarrayview_ops_def overload_names_def has_attr_def getattr_error_def
      setattr_def mixin_dict_def plain_class_def object_class_def)

text \<open>
  C10, amended. For every class, \<^verbatim>\<open>_add_ndarrayview_ops\<close> raises before completing and never
  returns. On a class whose attributes can be read and set without an exception it raises
  ValueError for the first of the sixteen names up to and including \<^verbatim>\<open>drop_axis\<close> that the
  class already has, and KeyError for \<^verbatim>\<open>drop_axis\<close> when it has none of them. On a class
  that does not have \<^verbatim>\<open>__add__\<close> and refuses to set it, it raises the exception of that
  \<^verbatim>\<open>setattr\<close>.
\<close>

theorem add_ndarrayview_ops_never_completes:
  "fst (add_ndarrayview_ops klass) \<noteq> Inr ()
   \<and> ((\<forall>name. getattr_error klass name = None) \<longrightarrow> (\<forall>name. set_error klass name = None) \<longrightarrow>
        fst (add_ndarrayview_ops klass) =
          (case find (has_attr klass) (take 16 overload_names) of
             Some name \<Rightarrow> Inl (ValueError name)
           | None \<Rightarrow> Inl (KeyError ''drop_axis'')))
   \<and> (getattr_error klass ''__add__'' = None \<longrightarrow> \<not> has_attr klass ''__add__'' \<longrightarrow>
        set_error klass ''__add__'' = Some e \<longrightarrow>
        fst (add_ndarrayview_ops klass) = Inl e)"
proof (intro conjI impI)
  show "fst (add_ndarrayview_ops klass) \<noteq> Inr ()"
    unfolding add_ndarrayview_ops_def
    by (rule add_ops_loop_stops) (simp add: overload_names_def)
next
  assume "\<forall>name. getattr_error klass name = None" and "\<forall>name. set_error klass name = None"
  then show "fst (add_ndarrayview_ops klass) =
          (case find (has_attr klass) (take 16 overload_names) of
             Some name \<Rightarrow> Inl (ValueError name)
           | None \<Rightarrow> Inl (KeyError ''drop_axis''))"
    by (simp add: add_ndarrayview_ops_def overload_names_def mixin_dict_def setattr_def
        has_attr_def getattr_error_def)
next
  assume "getattr_error klass ''__add__'' = None" and "\<not> has_attr klass ''__add__''"
    and "set_error klass ''__add__'' = Some e"
  then show "fst (add_ndarrayview_ops klass) = Inl e"
    by (simp add: add_ndarrayview_ops_def overload_names_def mixin_dict_def setattr_def)
qed

text \<open>At an ordinary class that has \<^verbatim>\<open>__mul__\<close> already, and at \<^verbatim>\<open>object\<close>.\<close>

theorem add_ndarrayview_ops_never_completes_witness:
  "(\<forall>name. getattr_error (plain_class\<lparr>attrs := [''__mul__'' \<mapsto> Attr True]\<rparr>) name = None)
   \<and> (\<forall>name. set_error (plain_class\<lparr>attrs := [''__mul__'' \<mapsto> Attr True]\<rparr>) name = None)
   \<and> fst (add_ndarrayview_ops (plain_class\<lparr>attrs := [''__mul__'' \<mapsto> Attr True]\<rparr>)) =
       Inl (ValueError ''__mul__'')
   \<and> getattr_error object_class ''__add__'' = None \<and> \<not> has_attr object_class ''__add__''
   \<and> set_error object_class ''__add__'' = Some (TypeError ''cannot set attribute of built-in type'')
   \<and> fst (add_ndarrayview_ops object_class) =
       Inl (TypeError ''cannot set attribute of built-in type'')"
  using
    add_ndarrayview_ops_never_completes
      [of "plain_class\<lparr>attrs := [''__mul__'' \<mapsto> Attr True]\<rparr>"]
    add_ndarrayview_ops_never_completes
      [of object_class "TypeError ''cannot set attribute of built-in type''"]
  by (simp add: plain_class_def object_class_def getattr_error_def has_attr_def
      overload_names_def)

end
